theory Spec2Isabelle
  imports Complex_Main
begin

section \<open>Values of the program\<close>

text \<open>
  A shallow embedding of \<^verbatim>\<open>lib/WebSocketClient.js\<close>.

  JavaScript numbers are modelled as \<^typ>\<open>real\<close> (finite doubles, without rounding;
  \<^verbatim>\<open>NaN\<close> and the infinities are left out). Objects with identity (transports, timer
  handles) are natural numbers handed out by a counter, so that \<^verbatim>\<open>===\<close> on them is
  equality of the numbers; every handle is truthy.
\<close>

text \<open>
  A thrown value. \<^verbatim>\<open>assert(condition, message)\<close> throws \<^verbatim>\<open>Error(message)\<close>; the message
  of \<^verbatim>\<open>assertValidOutgoingCloseCode\<close> is a template over the prefix and the
  number, kept here as the two parts.
\<close>

datatype error = Error string | InvalidCloseCode string real

text \<open>
  A close reason. The reason of the connect timeout is a template over the duration
  (\<^verbatim>\<open>`Timeout: Opening WebSocket took longer than ${connectTimeout}ms`\<close>).
\<close>

datatype reason = Text string | OpeningTookLongerThan real

text \<open>
  Modelled from the spec: \<^verbatim>\<open>lib/readyState.js\<close> is not among the sources; the spec gives a
  transport a readiness state that is "not-yet-open / open / closed".
\<close>

datatype ready_state = CONNECTING | OPEN | CLOSED

text \<open>
  Modelled from the spec: \<^verbatim>\<open>lib/closeCodes.js\<close> is not among the sources; the spec gives
  \<^verbatim>\<open>stop(code=1000, reason="Normal Closure")\<close>, so \<^verbatim>\<open>closeCodes.NORMAL\<close> is 1000.
\<close>

definition NORMAL :: real where
  "NORMAL = 1000"

datatype event_name =
    OnError | OnProtocolError | OnPingSuccess | OnPingFail
  | OnWebSocketConnecting | OnWebSocketOpen | OnWebSocketError | OnWebSocketClose

text \<open>
  An event as passed to \<^verbatim>\<open>this.emit\<close>. The payload of \<^verbatim>\<open>webSocketClose\<close> is
  \<^verbatim>\<open>{code, reason, closedByRemote, reconnect, reconnectDelay}\<close>, the last field absent when
  no reconnect is scheduled.
\<close>

datatype event =
    ErrorEvent error
  | ProtocolError error
  | PingSuccess real
  | PingFail real error
  | WebSocketConnecting
  | WebSocketOpen
  | WebSocketError
  | WebSocketClose real reason bool bool "real option"

fun name_of :: "event \<Rightarrow> event_name" where
  "name_of (ErrorEvent _) = OnError"
| "name_of (ProtocolError _) = OnProtocolError"
| "name_of (PingSuccess _) = OnPingSuccess"
| "name_of (PingFail _ _) = OnPingFail"
| "name_of WebSocketConnecting = OnWebSocketConnecting"
| "name_of WebSocketOpen = OnWebSocketOpen"
| "name_of WebSocketError = OnWebSocketError"
| "name_of (WebSocketClose _ _ _ _ _) = OnWebSocketClose"

text \<open>
  A listener registered by the caller with \<^verbatim>\<open>rpc.on(name, f)\<close>, by what a call of it
  does: it returns, or it throws. Listeners that call back into the client are not
  modelled.
\<close>

datatype listener = Returns | Throws error

text \<open>
  The callbacks handed to the timer facade (\<^verbatim>\<open>this.rpc.setTimeout\<close>):
  \<^verbatim>\<open>() => isActive() && this._handleConnectionTimeout(connectTimeout)\<close> closes over the
  transport and the duration, \<^verbatim>\<open>() => this._connect()\<close> over nothing.
\<close>

datatype timer_callback = ConnectTimeoutCb nat real | ReconnectCb

section \<open>The state\<close>

text \<open>
  The first fifteen fields are the sealed \<^verbatim>\<open>this[PRIVATE]\<close> object, in its order. The
  others are what the client touches of its collaborators: the pause and ping switches
  and the pending timers of the protocol engine (\<^verbatim>\<open>this.rpc\<close>), the transports made by
  the factory with their \<^verbatim>\<open>readyState\<close>, the calls of \<^verbatim>\<open>close\<close> and \<^verbatim>\<open>send\<close> on them,
  the registered listeners, and the log of the calls of \<^verbatim>\<open>this.emit\<close>.

  \<^verbatim>\<open>createConnectionCallback\<close> is given by its outcome on a url: it throws, or it returns
  a new transport. \<^verbatim>\<open>reconnectDelayCallback\<close> throws or returns a number.
\<close>

record client =
  url :: string
  createConnectionCallback :: "string \<Rightarrow> error option"
  reconnect :: bool
  reconnectDelayCallback :: "real \<Rightarrow> error + real"
  reconnectCounterMax :: real
  connectTimeout :: real
  consecutivePingFailClose :: real
  timeoutCloseCode :: real
  internalErrorCloseCode :: real
  started :: bool
  activeWebSocket :: "nat option"
  reconnectCounter :: real
  hasHandledWebSocketClose :: bool
  reconnectTimer :: "nat option"
  connectTimeoutTimer :: "nat option"
  rpc_paused :: bool
  rpc_pinging :: bool
  timers :: "(nat \<times> timer_callback \<times> real) list"
  nextTimer :: nat
  readyStates :: "nat \<Rightarrow> ready_state option"
  nextWebSocket :: nat
  closeCalls :: "(nat \<times> real \<times> reason) list"
  sendCalls :: "(nat \<times> string) list"
  listeners :: "event_name \<Rightarrow> listener list"
  emitted :: "event list"

section \<open>Assertions and the event emitter\<close>

definition Number_isInteger :: "real \<Rightarrow> bool" where
  "Number_isInteger x = (of_int \<lfloor>x\<rfloor> = x)"

definition assertValidOutgoingCloseCode :: "real \<Rightarrow> string \<Rightarrow> error + unit" where
  "assertValidOutgoingCloseCode number message =
     (if Number_isInteger number \<and> (number = 1000 \<or> (number \<ge> 3000 \<and> number \<le> 4999))
      then Inr ()
      else Inl (InvalidCloseCode message number))"

fun first_throw :: "listener list \<Rightarrow> error option" where
  "first_throw [] = None"
| "first_throw (Returns # ls) = first_throw ls"
| "first_throw (Throws e # ls) = Some e"

text \<open>
  \<^verbatim>\<open>EventEmitter.emit\<close>: the listeners of the name run in the order of registration, and
  the first one that throws ends the call with its exception. An \<^verbatim>\<open>error\<close> event nobody
  listens for is thrown by \<^verbatim>\<open>emit\<close> itself.
\<close>

fun unhandled_error :: "event \<Rightarrow> listener list \<Rightarrow> error option" where
  "unhandled_error (ErrorEvent err) [] = Some err"
| "unhandled_error _ _ = None"

definition emit :: "event \<Rightarrow> client \<Rightarrow> (error + unit) \<times> client" where
  "emit ev s =
     (let s' = s\<lparr>emitted := emitted s @ [ev]\<rparr>;
          ls = listeners s (name_of ev)
      in case unhandled_error ev ls of
           Some err \<Rightarrow> (Inl err, s')
         | None \<Rightarrow> (case first_throw ls of Some e \<Rightarrow> (Inl e, s') | None \<Rightarrow> (Inr (), s')))"

text \<open>
  \<^verbatim>\<open>_wrapListener(func)\<close>: what \<^verbatim>\<open>func\<close> throws is caught and emitted as an \<^verbatim>\<open>error\<close>
  event; what that \<^verbatim>\<open>emit\<close> throws is not caught.
\<close>

definition wrapListener ::
  "(client \<Rightarrow> (error + 'a) \<times> client) \<Rightarrow> client \<Rightarrow> (error + unit) \<times> client" where
  "wrapListener func s =
     (case func s of
        (Inr _, s') \<Rightarrow> (Inr (), s')
      | (Inl err, s') \<Rightarrow> emit (ErrorEvent err) s')"

section \<open>The collaborators\<close>

definition rpc_setTimeout :: "timer_callback \<Rightarrow> real \<Rightarrow> client \<Rightarrow> nat \<times> client" where
  "rpc_setTimeout cb delay s =
     (nextTimer s, s\<lparr>timers := timers s @ [(nextTimer s, cb, delay)], nextTimer := Suc (nextTimer s)\<rparr>)"

definition rpc_clearTimeout :: "nat \<Rightarrow> client \<Rightarrow> client" where
  "rpc_clearTimeout t s = s\<lparr>timers := filter (\<lambda>p. fst p \<noteq> t) (timers s)\<rparr>"

definition rpc_pause :: "client \<Rightarrow> client" where
  "rpc_pause s = s\<lparr>rpc_paused := True\<rparr>"

definition rpc_resume :: "client \<Rightarrow> client" where
  "rpc_resume s = s\<lparr>rpc_paused := False\<rparr>"

definition rpc_startPinging :: "client \<Rightarrow> client" where
  "rpc_startPinging s = s\<lparr>rpc_pinging := True\<rparr>"

definition rpc_stopPinging :: "client \<Rightarrow> client" where
  "rpc_stopPinging s = s\<lparr>rpc_pinging := False\<rparr>"

definition webSocket_close :: "nat \<Rightarrow> real \<Rightarrow> reason \<Rightarrow> client \<Rightarrow> client" where
  "webSocket_close ws code rsn s = s\<lparr>closeCalls := closeCalls s @ [(ws, code, rsn)]\<rparr>"

definition webSocket_send :: "nat \<Rightarrow> string \<Rightarrow> client \<Rightarrow> client" where
  "webSocket_send ws data s = s\<lparr>sendCalls := sendCalls s @ [(ws, data)]\<rparr>"

section \<open>The client\<close>

definition clearReconnectTimer :: "client \<Rightarrow> client" where
  "clearReconnectTimer s =
     (case reconnectTimer s of
        Some t \<Rightarrow> rpc_clearTimeout t s
      | None \<Rightarrow> s)\<lparr>reconnectTimer := None\<rparr>"

definition clearConnectTimeoutTimer :: "client \<Rightarrow> client" where
  "clearConnectTimeoutTimer s =
     (case connectTimeoutTimer s of
        Some t \<Rightarrow> rpc_clearTimeout t s
      | None \<Rightarrow> s)\<lparr>connectTimeoutTimer := None\<rparr>"

text \<open>
  \<^verbatim>\<open>closeConnection\<close>, \<^verbatim>\<open>_webSocketClosed\<close> and \<^verbatim>\<open>stop\<close> call each other:
  \<^verbatim>\<open>closeConnection\<close> calls \<^verbatim>\<open>_webSocketClosed\<close> when there is an active transport,
  \<^verbatim>\<open>_webSocketClosed\<close> drops the active transport and calls \<^verbatim>\<open>this.stop()\<close> when no
  reconnect is due, and \<^verbatim>\<open>stop\<close> calls \<^verbatim>\<open>closeConnection\<close>.
\<close>

function closeConnection :: "real \<Rightarrow> reason \<Rightarrow> client \<Rightarrow> (error + bool) \<times> client"
  and webSocketClosed :: "real \<Rightarrow> reason \<Rightarrow> bool \<Rightarrow> client \<Rightarrow> (error + unit) \<times> client"
  and stop :: "real \<Rightarrow> reason \<Rightarrow> client \<Rightarrow> (error + unit) \<times> client"
where
  "closeConnection code rsn s =
     (case assertValidOutgoingCloseCode code ''closeConnection(): '' of
        Inl e \<Rightarrow> (Inl e, s)
      | Inr _ \<Rightarrow>
          (case activeWebSocket s of
             None \<Rightarrow> (Inr False, s)
           | Some ws \<Rightarrow>
               (case webSocketClosed code rsn False (webSocket_close ws code rsn s) of
                  (Inl e, s') \<Rightarrow> (Inl e, s')
                | (Inr _, s') \<Rightarrow> (Inr True, s'))))"
| "webSocketClosed code rsn closedByRemote s =
     (if hasHandledWebSocketClose s then (Inr (), s)
      else
        let s1 = rpc_stopPinging (rpc_pause (clearConnectTimeoutTimer (s\<lparr>activeWebSocket := None\<rparr>)))
        in if started s1 \<and> reconnect s1 then
             (case reconnectDelayCallback s1 (reconnectCounter s1) of
                Inl e \<Rightarrow> (Inl e, s1)
              | Inr reconnectDelay \<Rightarrow>
                  (let s2 = s1\<lparr>reconnectCounter :=
                                 min (reconnectCounter s1 + 1) (reconnectCounterMax s1)\<rparr>;
                       s3 = clearReconnectTimer s2;
                       (t, s4) = rpc_setTimeout ReconnectCb reconnectDelay s3;
                       s5 = s4\<lparr>reconnectTimer := Some t\<rparr>
                   in case emit (WebSocketClose code rsn closedByRemote True (Some reconnectDelay)) s5 of
                        (Inl e, s6) \<Rightarrow> (Inl e, s6)
                      | (Inr _, s6) \<Rightarrow> (Inr (), s6\<lparr>hasHandledWebSocketClose := True\<rparr>)))
           else
             (case stop NORMAL (Text ''Normal Closure'') s1 of
                (Inl e, s2) \<Rightarrow> (Inl e, s2)
              | (Inr _, s2) \<Rightarrow>
                  (case emit (WebSocketClose code rsn closedByRemote False None) s2 of
                     (Inl e, s3) \<Rightarrow> (Inl e, s3)
                   | (Inr _, s3) \<Rightarrow> (Inr (), s3\<lparr>hasHandledWebSocketClose := True\<rparr>))))"
| "stop code rsn s =
     (case closeConnection code rsn
             (rpc_stopPinging (clearReconnectTimer (s\<lparr>started := False\<rparr>))) of
        (Inl e, s') \<Rightarrow> (Inl e, s')
      | (Inr _, s') \<Rightarrow> (Inr (), s'))"
  by pat_completeness auto

text \<open>
  The calls end: \<^verbatim>\<open>_webSocketClosed\<close> has set \<^verbatim>\<open>activeWebSocket\<close> to \<^verbatim>\<open>null\<close> before it
  calls \<^verbatim>\<open>stop\<close>, so the \<^verbatim>\<open>closeConnection\<close> inside finds no transport.
\<close>

termination
  apply (relation "measure (\<lambda>x. case x of
      Inl (code, rsn, s) \<Rightarrow> (if activeWebSocket s = None then 1 else 4)
    | Inr (Inl (code, rsn, cbr, s)) \<Rightarrow> 3
    | Inr (Inr (code, rsn, s)) \<Rightarrow> (if activeWebSocket s = None then 2 else 5))")
  apply (auto simp: webSocket_close_def rpc_stopPinging_def rpc_pause_def
      clearConnectTimeoutTimer_def clearReconnectTimer_def rpc_clearTimeout_def
      split: option.splits)
  done

declare closeConnection.simps [simp del]
declare webSocketClosed.simps [simp del]
declare stop.simps [simp del]

text \<open>A call whose return value is dropped.\<close>

definition statement :: "(error + 'a) \<times> client \<Rightarrow> (error + unit) \<times> client" where
  "statement r = (case r of (Inl e, s') \<Rightarrow> (Inl e, s') | (Inr _, s') \<Rightarrow> (Inr (), s'))"

definition isActive :: "nat \<Rightarrow> client \<Rightarrow> bool" where
  "isActive webSocket s = (activeWebSocket s = Some webSocket)"

text \<open>
  \<^verbatim>\<open>_connect\<close>. The transport returned by the factory is a new object in the state
  \<^const>\<open>CONNECTING\<close>; the four listeners added to it are the transport events of
  \<open>step\<close> below. Setting \<^verbatim>\<open>binaryType\<close> is left out.
\<close>

definition connect :: "client \<Rightarrow> (error + unit) \<times> client" where
  "connect s =
     (if \<not> started s then (Inl (Error ''_connect(): Should be started''), s)
      else if activeWebSocket s \<noteq> None
      then (Inl (Error ''_connect(): There already is an active connection''), s)
      else
        let u = url s;
            ct = connectTimeout s;
            s1 = (clearReconnectTimer s)\<lparr>hasHandledWebSocketClose := False\<rparr>
        in case createConnectionCallback s1 u of
             Some e \<Rightarrow> (Inl e, s1)
           | None \<Rightarrow>
               (let webSocket = nextWebSocket s1;
                    s2 = s1\<lparr>readyStates := (readyStates s1)(webSocket \<mapsto> CONNECTING),
                            nextWebSocket := Suc webSocket\<rparr>;
                    s3 = s2\<lparr>activeWebSocket := Some webSocket\<rparr>;
                    (t, s4) = rpc_setTimeout (ConnectTimeoutCb webSocket ct) ct s3;
                    s5 = s4\<lparr>connectTimeoutTimer := Some t\<rparr>
                in emit WebSocketConnecting s5))"

definition start :: "client \<Rightarrow> (error + unit) \<times> client" where
  "start s =
     (if started s then (Inl (Error ''start(): Already started''), s)
      else connect (s\<lparr>started := True\<rparr>))"


definition handleConnectionTimeout :: "real \<Rightarrow> client \<Rightarrow> (error + unit) \<times> client" where
  "handleConnectionTimeout ct s =
     statement (closeConnection (timeoutCloseCode s) (OpeningTookLongerThan ct) s)"

definition handleRpcError :: "error \<Rightarrow> client \<Rightarrow> (error + unit) \<times> client" where
  "handleRpcError err s =
     statement (closeConnection (internalErrorCloseCode s) (Text ''Internal JSON-RPC error'') s)"

definition handleRpcPingSuccess :: "real \<Rightarrow> client \<Rightarrow> (error + unit) \<times> client" where
  "handleRpcPingSuccess delay s =
     (Inr (), s\<lparr>reconnectCounter := max 0 (reconnectCounter s - 1)\<rparr>)"

definition handleRpcPingFail :: "real \<Rightarrow> error \<Rightarrow> client \<Rightarrow> (error + unit) \<times> client" where
  "handleRpcPingFail consecutiveFails err s =
     (if consecutiveFails \<ge> consecutivePingFailClose s
      then statement (closeConnection (timeoutCloseCode s)
                        (Text ''Timeout: No responses received to ping calls'') s)
      else (Inr (), s))"

definition handleRpcData :: "string \<Rightarrow> client \<Rightarrow> (error + unit) \<times> client" where
  "handleRpcData data s =
     (case activeWebSocket s of
        None \<Rightarrow> (Inl (Error ''_handleRpcData(): Expected an active connection''), s)
      | Some ws \<Rightarrow>
          if readyStates s ws \<noteq> Some OPEN
          then (Inl (Error ''_handleRpcData(): Expected an open connection''), s)
          else (Inr (), webSocket_send ws data s))"

text \<open>
  \<^verbatim>\<open>_handleWebSocketOpen\<close>. Between \<^verbatim>\<open>resume\<close> and \<^verbatim>\<open>emit\<close> the source sets the ping
  interval of the protocol engine to 1, resets its ping statistics, starts pinging and
  restores the interval; of these only the start of pinging is kept.
\<close>

definition handleWebSocketOpen :: "client \<Rightarrow> (error + unit) \<times> client" where
  "handleWebSocketOpen s =
     emit WebSocketOpen
       (rpc_startPinging (rpc_resume (clearReconnectTimer (clearConnectTimeoutTimer s))))"

definition handleWebSocketError :: "client \<Rightarrow> (error + unit) \<times> client" where
  "handleWebSocketError s = emit WebSocketError s"

definition handleWebSocketClose :: "real \<Rightarrow> reason \<Rightarrow> client \<Rightarrow> (error + unit) \<times> client" where
  "handleWebSocketClose code rsn s = webSocketClosed code rsn True s"

text \<open>
  \<^verbatim>\<open>_handleWebSocketMessage\<close> writes the data to the protocol engine, which is outside
  the client's own state.
\<close>

definition handleWebSocketMessage :: "string \<Rightarrow> client \<Rightarrow> (error + unit) \<times> client" where
  "handleWebSocketMessage data s = (Inr (), s)"

fun timer_fires :: "timer_callback \<Rightarrow> client \<Rightarrow> (error + unit) \<times> client" where
  "timer_fires (ConnectTimeoutCb webSocket ct) s =
     (if isActive webSocket s then handleConnectionTimeout ct s else (Inr (), s))"
| "timer_fires ReconnectCb s = connect s"

section \<open>Configuration\<close>

definition set_url :: "string \<Rightarrow> client \<Rightarrow> (error + unit) \<times> client" where
  "set_url v s = (Inr (), s\<lparr>url := v\<rparr>)"

definition set_reconnect :: "bool \<Rightarrow> client \<Rightarrow> (error + unit) \<times> client" where
  "set_reconnect v s = (Inr (), s\<lparr>reconnect := v\<rparr>)"

definition set_consecutivePingFailClose :: "real \<Rightarrow> client \<Rightarrow> (error + unit) \<times> client" where
  "set_consecutivePingFailClose v s = (Inr (), s\<lparr>consecutivePingFailClose := v\<rparr>)"

definition set_connectTimeout :: "real \<Rightarrow> client \<Rightarrow> (error + unit) \<times> client" where
  "set_connectTimeout v s = (Inr (), s\<lparr>connectTimeout := v\<rparr>)"

definition set_timeoutCloseCode :: "real \<Rightarrow> client \<Rightarrow> (error + unit) \<times> client" where
  "set_timeoutCloseCode number s =
     (case assertValidOutgoingCloseCode number ''Invalid value for timeoutCloseCode:'' of
        Inl e \<Rightarrow> (Inl e, s)
      | Inr _ \<Rightarrow> (Inr (), s\<lparr>timeoutCloseCode := number\<rparr>))"

definition set_internalErrorCloseCode :: "real \<Rightarrow> client \<Rightarrow> (error + unit) \<times> client" where
  "set_internalErrorCloseCode number s =
     (case assertValidOutgoingCloseCode number ''Invalid value for internalErrorCloseCode:'' of
        Inl e \<Rightarrow> (Inl e, s)
      | Inr _ \<Rightarrow> (Inr (), s\<lparr>internalErrorCloseCode := number\<rparr>))"

definition set_createConnectionCallback ::
  "(string \<Rightarrow> error option) \<Rightarrow> client \<Rightarrow> (error + unit) \<times> client" where
  "set_createConnectionCallback v s = (Inr (), s\<lparr>createConnectionCallback := v\<rparr>)"

definition set_reconnectDelayCallback ::
  "(real \<Rightarrow> error + real) \<Rightarrow> client \<Rightarrow> (error + unit) \<times> client" where
  "set_reconnectDelayCallback v s = (Inr (), s\<lparr>reconnectDelayCallback := v\<rparr>)"

definition set_reconnectCounterMax :: "real \<Rightarrow> client \<Rightarrow> (error + unit) \<times> client" where
  "set_reconnectCounterMax v s = (Inr (), s\<lparr>reconnectCounterMax := v\<rparr>)"

datatype setting =
    Url string
  | CreateConnectionCallback "string \<Rightarrow> error option"
  | Reconnect bool
  | ReconnectDelayCallback "real \<Rightarrow> error + real"
  | ReconnectCounterMax real
  | ConnectTimeout real
  | ConsecutivePingFailClose real
  | TimeoutCloseCode real
  | InternalErrorCloseCode real

fun assign :: "setting \<Rightarrow> client \<Rightarrow> (error + unit) \<times> client" where
  "assign (Url v) s = set_url v s"
| "assign (CreateConnectionCallback v) s = set_createConnectionCallback v s"
| "assign (Reconnect v) s = set_reconnect v s"
| "assign (ReconnectDelayCallback v) s = set_reconnectDelayCallback v s"
| "assign (ReconnectCounterMax v) s = set_reconnectCounterMax v s"
| "assign (ConnectTimeout v) s = set_connectTimeout v s"
| "assign (ConsecutivePingFailClose v) s = set_consecutivePingFailClose v s"
| "assign (TimeoutCloseCode v) s = set_timeoutCloseCode v s"
| "assign (InternalErrorCloseCode v) s = set_internalErrorCloseCode v s"

text \<open>
  The sealed private object of the constructor, with the collaborators as they are
  before the first call: no timer, no transport, no listener, nothing emitted. The two
  callbacks are \<^verbatim>\<open>null\<close> there; the constructor assigns them before anything reads them.
\<close>

definition sealed :: client where
  "sealed = \<lparr>
     url = [],
     createConnectionCallback = (\<lambda>_. None),
     reconnect = False,
     reconnectDelayCallback = (\<lambda>_. Inr 0),
     reconnectCounterMax = 0,
     connectTimeout = 0,
     consecutivePingFailClose = 0,
     timeoutCloseCode = 0,
     internalErrorCloseCode = 0,
     started = False,
     activeWebSocket = None,
     reconnectCounter = 0,
     hasHandledWebSocketClose = False,
     reconnectTimer = None,
     connectTimeoutTimer = None,
     rpc_paused = False,
     rpc_pinging = False,
     timers = [],
     nextTimer = 0,
     readyStates = (\<lambda>_. None),
     nextWebSocket = 0,
     closeCalls = [],
     sendCalls = [],
     listeners = (\<lambda>_. []),
     emitted = []\<rparr>"

text \<open>
  The constructor assigns the options through the setters, in the order of the source,
  and pauses the protocol engine. \<open>DEFAULT_OPTIONS\<close> takes the two default callbacks as
  parameters (the default delay callback of the source draws a random number).
\<close>

fun assign_all :: "setting list \<Rightarrow> client \<Rightarrow> (error + unit) \<times> client" where
  "assign_all [] s = (Inr (), s)"
| "assign_all (x # xs) s =
     (case assign x s of
        (Inl e, s') \<Rightarrow> (Inl e, s')
      | (Inr _, s') \<Rightarrow> assign_all xs s')"

record options =
  opt_url :: string
  opt_createConnectionCallback :: "string \<Rightarrow> error option"
  opt_reconnect :: bool
  opt_reconnectDelayCallback :: "real \<Rightarrow> error + real"
  opt_reconnectCounterMax :: real
  opt_connectTimeout :: real
  opt_consecutivePingFailClose :: real
  opt_timeoutCloseCode :: real
  opt_internalErrorCloseCode :: real

definition DEFAULT_OPTIONS ::
  "(string \<Rightarrow> error option) \<Rightarrow> (real \<Rightarrow> error + real) \<Rightarrow> options" where
  "DEFAULT_OPTIONS defaultCreateConnectionCallback defaultReconnectDelayCallback = \<lparr>
     opt_url = [],
     opt_createConnectionCallback = defaultCreateConnectionCallback,
     opt_reconnect = True,
     opt_reconnectDelayCallback = defaultReconnectDelayCallback,
     opt_reconnectCounterMax = 8,
     opt_connectTimeout = 10000,
     opt_consecutivePingFailClose = 4,
     opt_timeoutCloseCode = 4100,
     opt_internalErrorCloseCode = 4101\<rparr>"

definition constructor :: "options \<Rightarrow> error + client" where
  "constructor opts =
     (case assign_all
             [Url (opt_url opts),
              CreateConnectionCallback (opt_createConnectionCallback opts),
              Reconnect (opt_reconnect opts),
              ReconnectDelayCallback (opt_reconnectDelayCallback opts),
              ReconnectCounterMax (opt_reconnectCounterMax opts),
              ConnectTimeout (opt_connectTimeout opts),
              ConsecutivePingFailClose (opt_consecutivePingFailClose opts),
              TimeoutCloseCode (opt_timeoutCloseCode opts),
              InternalErrorCloseCode (opt_internalErrorCloseCode opts)] sealed of
        (Inl e, _) \<Rightarrow> Inl e
      | (Inr _, s) \<Rightarrow> Inr (rpc_pause s))"

section \<open>What can happen to a client\<close>

text \<open>
  The calls of the public interface, the events of a transport (delivered to the
  listeners that \<^verbatim>\<open>_connect\<close> added to it, each wrapped by \<^verbatim>\<open>_wrapListener\<close>), a pending
  timer firing, and the events of the protocol engine (for \<^verbatim>\<open>error\<close>, \<^verbatim>\<open>pingSuccess\<close>
  and \<^verbatim>\<open>pingFail\<close> the wrapped handler first, then the listener that forwards the event
  to the client's own listeners, which is not wrapped).

  A transport sets its \<^verbatim>\<open>readyState\<close> before it dispatches \<^verbatim>\<open>open\<close> or \<^verbatim>\<open>close\<close>. The
  first component of the result is what the call returns to the one who made it: the
  caller of the interface, the transport, the timer facade or the protocol engine.
\<close>

datatype input =
    Start
  | Stop real reason
  | CloseConnection real reason
  | Assign setting
  | On event_name listener
  | TransportOpen nat
  | TransportError nat
  | TransportClose nat real reason
  | TransportMessage nat string
  | TimerFires nat
  | RpcError error
  | RpcProtocolError error
  | RpcPingSuccess real
  | RpcPingFail real error
  | RpcData string

definition andThen ::
  "(error + unit) \<times> client \<Rightarrow> (client \<Rightarrow> (error + unit) \<times> client) \<Rightarrow> (error + unit) \<times> client" where
  "andThen r f = (case r of (Inl e, s') \<Rightarrow> (Inl e, s') | (Inr _, s') \<Rightarrow> f s')"

fun step :: "input \<Rightarrow> client \<Rightarrow> (error + unit) \<times> client" where
  "step Start s = start s"
| "step (Stop code rsn) s = stop code rsn s"
| "step (CloseConnection code rsn) s = statement (closeConnection code rsn s)"
| "step (Assign x) s = assign x s"
| "step (On name l) s = (Inr (), s\<lparr>listeners := (listeners s)(name := listeners s name @ [l])\<rparr>)"
| "step (TransportOpen ws) s =
     (case readyStates s ws of
        None \<Rightarrow> (Inr (), s)
      | Some _ \<Rightarrow>
          wrapListener (\<lambda>s. if isActive ws s then handleWebSocketOpen s else (Inr (), s))
            (s\<lparr>readyStates := (readyStates s)(ws \<mapsto> OPEN)\<rparr>))"
| "step (TransportError ws) s =
     (case readyStates s ws of
        None \<Rightarrow> (Inr (), s)
      | Some _ \<Rightarrow>
          wrapListener (\<lambda>s. if isActive ws s then handleWebSocketError s else (Inr (), s)) s)"
| "step (TransportClose ws code rsn) s =
     (case readyStates s ws of
        None \<Rightarrow> (Inr (), s)
      | Some _ \<Rightarrow>
          wrapListener (\<lambda>s. if isActive ws s then handleWebSocketClose code rsn s else (Inr (), s))
            (s\<lparr>readyStates := (readyStates s)(ws \<mapsto> CLOSED)\<rparr>))"
| "step (TransportMessage ws data) s =
     (case readyStates s ws of
        None \<Rightarrow> (Inr (), s)
      | Some _ \<Rightarrow>
          wrapListener (\<lambda>s. if isActive ws s then handleWebSocketMessage data s else (Inr (), s)) s)"
| "step (TimerFires t) s =
     (case find (\<lambda>p. fst p = t) (timers s) of
        None \<Rightarrow> (Inr (), s)
      | Some (_, cb, _) \<Rightarrow> timer_fires cb (rpc_clearTimeout t s))"
| "step (RpcError err) s =
     andThen (wrapListener (handleRpcError err) s) (emit (ErrorEvent err))"
| "step (RpcProtocolError err) s = emit (ProtocolError err) s"
| "step (RpcPingSuccess delay) s =
     andThen (wrapListener (handleRpcPingSuccess delay) s) (emit (PingSuccess delay))"
| "step (RpcPingFail consecutiveFails err) s =
     andThen (wrapListener (handleRpcPingFail consecutiveFails err) s)
       (emit (PingFail consecutiveFails err))"
| "step (RpcData data) s = wrapListener (handleRpcData data) s"

fun run :: "input list \<Rightarrow> client \<Rightarrow> client" where
  "run [] s = s"
| "run (i # is) s = run is (snd (step i s))"

section \<open>Auxiliary notions\<close>

text \<open>
  The first three statements of \<^verbatim>\<open>stop\<close>, and the statements of \<^verbatim>\<open>_webSocketClosed\<close>
  between its guard and its branch, as state transformers of their own.
\<close>

definition stopped :: "client \<Rightarrow> client" where
  "stopped s = rpc_stopPinging (clearReconnectTimer (s\<lparr>started := False\<rparr>))"

definition closing :: "client \<Rightarrow> client" where
  "closing s =
     rpc_stopPinging (rpc_pause (clearConnectTimeoutTimer (s\<lparr>activeWebSocket := None\<rparr>)))"

text \<open>
  A client made with the default options, a transport factory that does not throw and
  the delay callback \<^verbatim>\<open>x => (x + 1) * 1111\<close> of the tests.
\<close>

definition example_options :: options where
  "example_options = DEFAULT_OPTIONS (\<lambda>_. None) (\<lambda>x. Inr ((x + 1) * 1111))"

definition example_client :: client where
  "example_client = projr (constructor example_options)"


text \<open>
  The pending timers without the one behind a handle; what the listeners of a name
  throw; and the states in which \<^verbatim>\<open>_webSocketClosed\<close> (when it schedules a reconnect for
  a given delay) and \<^verbatim>\<open>_connect\<close> (when the factory has returned) call \<^verbatim>\<open>emit\<close>,
  with the event already logged in the case of \<^verbatim>\<open>_connect\<close>.
\<close>

definition pending_without :: "nat option \<Rightarrow> (nat \<times> timer_callback \<times> real) list \<Rightarrow> (nat \<times> timer_callback \<times> real) list" where
  "pending_without h ts = (case h of None \<Rightarrow> ts | Some t \<Rightarrow> filter (\<lambda>p. fst p \<noteq> t) ts)"

definition thrown :: "event_name \<Rightarrow> client \<Rightarrow> error option" where
  "thrown name s = first_throw (listeners s name)"

definition reconnecting :: "real \<Rightarrow> client \<Rightarrow> client" where
  "reconnecting reconnectDelay s =
     s\<lparr>reconnectCounter := min (reconnectCounter s + 1) (reconnectCounterMax s),
       timers := pending_without (reconnectTimer s) (timers s) @ [(nextTimer s, ReconnectCb, reconnectDelay)],
       nextTimer := Suc (nextTimer s),
       reconnectTimer := Some (nextTimer s)\<rparr>"

definition connecting :: "client \<Rightarrow> client" where
  "connecting s =
     s\<lparr>timers := pending_without (reconnectTimer s) (timers s) @
                  [(nextTimer s, ConnectTimeoutCb (nextWebSocket s) (connectTimeout s), connectTimeout s)],
       nextTimer := Suc (nextTimer s),
       reconnectTimer := None,
       hasHandledWebSocketClose := False,
       readyStates := (readyStates s)(nextWebSocket s \<mapsto> CONNECTING),
       nextWebSocket := Suc (nextWebSocket s),
       activeWebSocket := Some (nextWebSocket s),
       connectTimeoutTimer := Some (nextTimer s),
       emitted := emitted s @ [WebSocketConnecting]\<rparr>"








text \<open>The state that the constructor returns when both close codes are valid.\<close>

definition constructed :: "options \<Rightarrow> client" where
  "constructed opts = sealed\<lparr>
     url := opt_url opts,
     createConnectionCallback := opt_createConnectionCallback opts,
     reconnect := opt_reconnect opts,
     reconnectDelayCallback := opt_reconnectDelayCallback opts,
     reconnectCounterMax := opt_reconnectCounterMax opts,
     connectTimeout := opt_connectTimeout opts,
     consecutivePingFailClose := opt_consecutivePingFailClose opts,
     timeoutCloseCode := opt_timeoutCloseCode opts,
     internalErrorCloseCode := opt_internalErrorCloseCode opts,
     rpc_paused := True\<rparr>"

text \<open>
  The reconnect counter within its bounds, for a maximum \<open>m\<close> that stays as configured;
  and the inputs that do not assign \<^verbatim>\<open>reconnectCounterMax\<close>.
\<close>

definition counter_inv :: "real \<Rightarrow> client \<Rightarrow> bool" where
  "counter_inv m s =
     (0 \<le> reconnectCounter s \<and> reconnectCounter s \<le> m \<and> reconnectCounterMax s = m)"

fun keeps_counter_max :: "input \<Rightarrow> bool" where
  "keeps_counter_max (Assign (ReconnectCounterMax v)) = False"
| "keeps_counter_max _ = True"








section \<open>Basic facts\<close>

lemma Number_isInteger_iff: "Number_isInteger x \<longleftrightarrow> x \<in> \<int>"
  unfolding Number_isInteger_def
proof
  assume h: "of_int \<lfloor>x\<rfloor> = x"
  have "(of_int \<lfloor>x\<rfloor> :: real) \<in> \<int>" by (rule Ints_of_int)
  then show "x \<in> \<int>" unfolding h .
next
  assume "x \<in> \<int>"
  then show "of_int \<lfloor>x\<rfloor> = x" by (auto elim: Ints_cases)
qed

lemma assertValid_cases:
  "assertValidOutgoingCloseCode x m =
     (if x \<in> \<int> \<and> (x = 1000 \<or> (3000 \<le> x \<and> x \<le> 4999)) then Inr () else Inl (InvalidCloseCode m x))"
  by (simp add: assertValidOutgoingCloseCode_def Number_isInteger_iff)

lemma assertValid_NORMAL: "assertValidOutgoingCloseCode NORMAL m = Inr ()"
  by (simp add: assertValid_cases NORMAL_def)

lemma closeConnection_no_active:
  "activeWebSocket s = None \<Longrightarrow>
   closeConnection code rsn s =
     (case assertValidOutgoingCloseCode code ''closeConnection(): '' of
        Inl e \<Rightarrow> (Inl e, s) | Inr _ \<Rightarrow> (Inr False, s))"
  by (simp add: closeConnection.simps split: sum.splits)

lemma closeConnection_invalid:
  "assertValidOutgoingCloseCode code ''closeConnection(): '' = Inl e \<Longrightarrow>
   closeConnection code rsn s = (Inl e, s)"
  by (simp add: closeConnection.simps)

lemma activeWebSocket_stopped: "activeWebSocket (stopped s) = activeWebSocket s"
  by (simp add: stopped_def rpc_stopPinging_def clearReconnectTimer_def rpc_clearTimeout_def split: option.splits)

lemma stop_eq: "stop code rsn s = statement (closeConnection code rsn (stopped s))"
  by (simp add: stop.simps statement_def stopped_def)

lemma activeWebSocket_closing: "activeWebSocket (closing s) = None"
  by (simp add: closing_def rpc_stopPinging_def rpc_pause_def clearConnectTimeoutTimer_def
      rpc_clearTimeout_def split: option.splits)

lemma stop_no_active: "activeWebSocket s = None \<Longrightarrow> stop NORMAL rsn s = (Inr (), stopped s)"
  by (simp add: stop_eq closeConnection_no_active activeWebSocket_stopped assertValid_NORMAL
      statement_def)

text \<open>\<^verbatim>\<open>_webSocketClosed\<close> without the calls back into \<^verbatim>\<open>stop\<close>.\<close>

lemma webSocketClosed_eq:
  "webSocketClosed code rsn closedByRemote s =
     (if hasHandledWebSocketClose s then (Inr (), s)
      else if started (closing s) \<and> reconnect (closing s) then
        (case reconnectDelayCallback (closing s) (reconnectCounter (closing s)) of
           Inl e \<Rightarrow> (Inl e, closing s)
         | Inr reconnectDelay \<Rightarrow>
             (let s3 = clearReconnectTimer ((closing s)\<lparr>reconnectCounter :=
                          min (reconnectCounter (closing s) + 1) (reconnectCounterMax (closing s))\<rparr>);
                  s5 = (snd (rpc_setTimeout ReconnectCb reconnectDelay s3))
                         \<lparr>reconnectTimer := Some (nextTimer s3)\<rparr>
              in case emit (WebSocketClose code rsn closedByRemote True (Some reconnectDelay)) s5 of
                   (Inl e, s6) \<Rightarrow> (Inl e, s6)
                 | (Inr _, s6) \<Rightarrow> (Inr (), s6\<lparr>hasHandledWebSocketClose := True\<rparr>)))
      else
        (case emit (WebSocketClose code rsn closedByRemote False None) (stopped (closing s)) of
           (Inl e, s3) \<Rightarrow> (Inl e, s3)
         | (Inr _, s3) \<Rightarrow> (Inr (), s3\<lparr>hasHandledWebSocketClose := True\<rparr>)))"
  apply (subst webSocketClosed.simps)
  apply (simp add: Let_def stop_no_active activeWebSocket_closing rpc_setTimeout_def
      flip: closing_def split: sum.splits prod.splits)
  done

text \<open>Results and resulting states, one field update at a time.\<close>

lemma clearReconnectTimer_nf:
  "clearReconnectTimer s = s\<lparr>timers := pending_without (reconnectTimer s) (timers s), reconnectTimer := None\<rparr>"
  by (simp add: clearReconnectTimer_def rpc_clearTimeout_def pending_without_def split: option.splits)

lemma clearConnectTimeoutTimer_nf:
  "clearConnectTimeoutTimer s = s\<lparr>timers := pending_without (connectTimeoutTimer s) (timers s), connectTimeoutTimer := None\<rparr>"
  by (simp add: clearConnectTimeoutTimer_def rpc_clearTimeout_def pending_without_def split: option.splits)

lemmas nf = clearReconnectTimer_nf clearConnectTimeoutTimer_nf rpc_setTimeout_def rpc_clearTimeout_def
  rpc_pause_def rpc_resume_def rpc_startPinging_def rpc_stopPinging_def webSocket_close_def webSocket_send_def
  stopped_def closing_def

lemma snd_emit: "snd (emit ev s) = s\<lparr>emitted := emitted s @ [ev]\<rparr>"
  by (simp add: emit_def Let_def split: option.splits)


lemma snd_statement: "snd (statement r) = snd r"
  by (simp add: statement_def split: prod.splits sum.splits)


lemma snd_wrapListener:
  "snd (wrapListener f s) =
     (case fst (f s) of
        Inr _ \<Rightarrow> snd (f s)
      | Inl err \<Rightarrow> (snd (f s))\<lparr>emitted := emitted (snd (f s)) @ [ErrorEvent err]\<rparr>)"
  by (simp add: wrapListener_def snd_emit split: prod.splits sum.splits)


lemma snd_andThen:
  "snd (andThen r f) = (case fst r of Inl e \<Rightarrow> snd r | Inr _ \<Rightarrow> snd (f (snd r)))"
  by (simp add: andThen_def split: prod.splits sum.splits)


lemma snd_webSocketClosed:
  "snd (webSocketClosed code rsn cbr s) =
     (if hasHandledWebSocketClose s then s
      else if started s \<and> reconnect s then
        (case reconnectDelayCallback s (reconnectCounter s) of
           Inl e \<Rightarrow> closing s
         | Inr d \<Rightarrow>
             (reconnecting d (closing s))
               \<lparr>emitted := emitted s @ [WebSocketClose code rsn cbr True (Some d)],
                hasHandledWebSocketClose := (thrown OnWebSocketClose s = None)\<rparr>)
      else (stopped (closing s))
             \<lparr>emitted := emitted s @ [WebSocketClose code rsn cbr False None],
              hasHandledWebSocketClose := (thrown OnWebSocketClose s = None)\<rparr>)"
  by (simp add: webSocketClosed_eq nf reconnecting_def emit_def thrown_def Let_def
      split: sum.splits option.splits prod.splits)


lemma snd_closeConnection:
  "snd (closeConnection code rsn s) =
     (case assertValidOutgoingCloseCode code ''closeConnection(): '' of
        Inl e \<Rightarrow> s
      | Inr _ \<Rightarrow>
         (case activeWebSocket s of
            None \<Rightarrow> s
          | Some ws \<Rightarrow> snd (webSocketClosed code rsn False (webSocket_close ws code rsn s))))"
  by (simp add: closeConnection.simps split: sum.splits option.splits prod.splits)


lemma snd_stop: "snd (stop code rsn s) = snd (closeConnection code rsn (stopped s))"
  by (simp add: stop_eq snd_statement)


lemma snd_connect:
  "snd (connect s) =
     (if \<not> started s \<or> activeWebSocket s \<noteq> None then s
      else case createConnectionCallback s (url s) of
             Some e \<Rightarrow> (clearReconnectTimer s)\<lparr>hasHandledWebSocketClose := False\<rparr>
           | None \<Rightarrow> connecting s)"
  by (simp add: connect_def nf connecting_def emit_def Let_def split: option.splits)


lemma snd_start:
  "snd (start s) = (if started s then s else snd (connect (s\<lparr>started := True\<rparr>)))"
  by (simp add: start_def)





lemmas handler_defs = isActive_def handleWebSocketOpen_def handleWebSocketClose_def handleWebSocketError_def
  handleWebSocketMessage_def handleConnectionTimeout_def handleRpcError_def handleRpcPingSuccess_def
  handleRpcPingFail_def handleRpcData_def

lemmas setter_defs = set_url_def set_createConnectionCallback_def set_reconnect_def
  set_reconnectDelayCallback_def set_reconnectCounterMax_def set_connectTimeout_def
  set_consecutivePingFailClose_def set_timeoutCloseCode_def set_internalErrorCloseCode_def




section \<open>Evaluating the example client\<close>

lemma example_client_eq:
  "example_client = \<lparr>
     url = [],
     createConnectionCallback = (\<lambda>_. None),
     reconnect = True,
     reconnectDelayCallback = (\<lambda>x. Inr ((x + 1) * 1111)),
     reconnectCounterMax = 8,
     connectTimeout = 10000,
     consecutivePingFailClose = 4,
     timeoutCloseCode = 4100,
     internalErrorCloseCode = 4101,
     started = False,
     activeWebSocket = None,
     reconnectCounter = 0,
     hasHandledWebSocketClose = False,
     reconnectTimer = None,
     connectTimeoutTimer = None,
     rpc_paused = True,
     rpc_pinging = False,
     timers = [],
     nextTimer = 0,
     readyStates = (\<lambda>_. None),
     nextWebSocket = 0,
     closeCalls = [],
     sendCalls = [],
     listeners = (\<lambda>_. []),
     emitted = []\<rparr>"
  by (simp add: example_client_def example_options_def constructor_def DEFAULT_OPTIONS_def sealed_def
      set_url_def set_createConnectionCallback_def set_reconnect_def set_reconnectDelayCallback_def
      set_reconnectCounterMax_def set_connectTimeout_def set_consecutivePingFailClose_def
      set_timeoutCloseCode_def set_internalErrorCloseCode_def assertValid_cases rpc_pause_def)

lemmas eval_defs = start_def connect_def emit_def clearReconnectTimer_def clearConnectTimeoutTimer_def
  rpc_setTimeout_def rpc_clearTimeout_def rpc_pause_def rpc_resume_def rpc_startPinging_def rpc_stopPinging_def
  webSocket_close_def webSocket_send_def statement_def isActive_def wrapListener_def andThen_def
  handleWebSocketOpen_def handleWebSocketClose_def handleWebSocketError_def handleWebSocketMessage_def
  handleConnectionTimeout_def handleRpcError_def handleRpcPingSuccess_def handleRpcPingFail_def handleRpcData_def
  stopped_def closing_def Let_def closeConnection.simps webSocketClosed_eq stop_eq

lemma constructor_example: "constructor example_options = Inr example_client"
  by (simp add: example_client_def example_options_def constructor_def DEFAULT_OPTIONS_def setter_defs
      assertValid_cases sealed_def)

section \<open>Sessions and their close events\<close>

lemma constructor_Inr: "constructor opts = Inr s \<Longrightarrow> s = constructed opts"
  by (auto simp: constructor_def constructed_def setter_defs rpc_pause_def split: sum.splits prod.splits)

lemma run_invariant:
  "(\<And>i s. i \<in> set inputs \<Longrightarrow> P s \<Longrightarrow> P (snd (step i s))) \<Longrightarrow> P s \<Longrightarrow> P (run inputs s)"
  by (induction inputs arbitrary: s) auto






















section \<open>The reconnect counter\<close>

lemma counter_inv_webSocketClosed:
  "counter_inv m s \<Longrightarrow> counter_inv m (snd (webSocketClosed code rsn cbr s))"
  by (auto simp: counter_inv_def snd_webSocketClosed nf reconnecting_def split: sum.splits)

lemma counter_inv_webSocket_close: "counter_inv m (webSocket_close ws code rsn s) = counter_inv m s"
  by (simp add: counter_inv_def nf)

lemma counter_inv_closeConnection:
  "counter_inv m s \<Longrightarrow> counter_inv m (snd (closeConnection code rsn s))"
  by (simp add: snd_closeConnection counter_inv_webSocketClosed counter_inv_webSocket_close
      split: sum.splits option.splits)

lemma counter_inv_stopped: "counter_inv m (stopped s) = counter_inv m s"
  by (simp add: counter_inv_def nf)

lemma counter_inv_connect: "counter_inv m s \<Longrightarrow> counter_inv m (snd (connect s))"
  by (auto simp: counter_inv_def snd_connect nf connecting_def split: option.splits)

lemma counter_inv_emitted: "counter_inv m (s\<lparr>emitted := es\<rparr>) = counter_inv m s"
  by (simp add: counter_inv_def)

lemma counter_inv_started: "counter_inv m (s\<lparr>started := b\<rparr>) = counter_inv m s"
  by (simp add: counter_inv_def)

lemma counter_inv_readyStates: "counter_inv m (s\<lparr>readyStates := r\<rparr>) = counter_inv m s"
  by (simp add: counter_inv_def)

lemma counter_inv_clearTimeout: "counter_inv m (rpc_clearTimeout t s) = counter_inv m s"
  by (simp add: counter_inv_def nf)

lemma counter_inv_handleWebSocketOpen: "counter_inv m (snd (handleWebSocketOpen s)) = counter_inv m s"
  by (simp add: counter_inv_def handler_defs snd_emit nf)

lemma counter_inv_handleRpcPingSuccess:
  "counter_inv m s \<Longrightarrow> counter_inv m (snd (handleRpcPingSuccess d s))"
  by (auto simp: counter_inv_def handler_defs)

lemma counter_inv_handleRpcData: "counter_inv m (snd (handleRpcData d s)) = counter_inv m s"
  by (simp add: counter_inv_def handler_defs nf split: option.splits)

lemma counter_inv_timer_fires: "counter_inv m s \<Longrightarrow> counter_inv m (snd (timer_fires cb s))"
  by (cases cb) (simp_all add: handler_defs snd_statement counter_inv_closeConnection counter_inv_connect)

lemmas counter_inv_simps = counter_inv_webSocketClosed counter_inv_webSocket_close
  counter_inv_closeConnection counter_inv_stopped counter_inv_connect counter_inv_emitted
  counter_inv_started counter_inv_readyStates counter_inv_clearTimeout counter_inv_handleWebSocketOpen
  counter_inv_handleRpcPingSuccess counter_inv_handleRpcData counter_inv_timer_fires

lemma counter_inv_step:
  "keeps_counter_max i \<Longrightarrow> counter_inv m s \<Longrightarrow> counter_inv m (snd (step i s))"
proof (cases i)
  case (Assign x)
  assume "keeps_counter_max i" "counter_inv m s"
  then show ?thesis unfolding Assign
    by (cases x) (auto simp: counter_inv_def setter_defs split: sum.splits)
next
  case (On name l)
  assume "counter_inv m s"
  then show ?thesis unfolding On
    by (simp add: counter_inv_def)
qed (simp_all add: snd_start snd_stop snd_statement snd_wrapListener snd_andThen snd_emit isActive_def
      handleWebSocketClose_def handleWebSocketError_def handleWebSocketMessage_def
      handleConnectionTimeout_def handleRpcError_def handleRpcPingFail_def
      counter_inv_simps split: sum.splits option.splits prod.splits)

lemma counter_inv_constructed:
  "0 \<le> opt_reconnectCounterMax opts \<Longrightarrow> counter_inv (opt_reconnectCounterMax opts) (constructed opts)"
  by (simp add: counter_inv_def constructed_def sealed_def)

lemma counter_inv_run:
  assumes "constructor opts = Inr s0" and "0 \<le> opt_reconnectCounterMax opts"
    and "\<forall>i\<in>set inputs. keeps_counter_max i"
  shows "counter_inv (opt_reconnectCounterMax opts) (run inputs s0)"
proof -
  have "counter_inv (opt_reconnectCounterMax opts) s0"
    using assms(1,2) constructor_Inr counter_inv_constructed by blast
  then show ?thesis
    using assms(3)
    by (intro run_invariant [where P = "counter_inv (opt_reconnectCounterMax opts)"])
       (auto intro: counter_inv_step)
qed

lemma reconnectCounter_pingSuccess:
  "reconnectCounter (snd (step (RpcPingSuccess d) s)) = max 0 (reconnectCounter s - 1)"
  by (simp add: snd_andThen snd_wrapListener snd_emit handleRpcPingSuccess_def split: sum.splits)

section \<open>The reconnect delay\<close>




section \<open>Closing the connection\<close>






section \<open>Stopping\<close>

























section \<open>The active connection\<close>
























section \<open>Exceptions of the callbacks\<close>












section \<open>The claims\<close>



text \<open>
  C2. From the constructor on, with a configured \<^verbatim>\<open>reconnectCounterMax\<close> that is not
  negative and is not assigned again, whatever happens to the client (so for every
  sequence of closed sessions, each one adding 1 up to the maximum, and ping successes,
  each one subtracting 1 down to 0), the reconnect counter stays between 0 and
  \<^verbatim>\<open>reconnectCounterMax\<close>. From a counter of 5, six ping successes in a row give the
  counters 4, 3, 2, 1, 0, 0.
\<close>

theorem reconnectCounter_bounds:
  "(constructor opts = Inr s0 \<and> 0 \<le> opt_reconnectCounterMax opts \<and>
    (\<forall>i\<in>set inputs. keeps_counter_max i) \<longrightarrow>
      0 \<le> reconnectCounter (run inputs s0) \<and>
      reconnectCounter (run inputs s0) \<le> reconnectCounterMax (run inputs s0) \<and>
      reconnectCounterMax (run inputs s0) = opt_reconnectCounterMax opts) \<and>
   (reconnectCounter s = 5 \<longrightarrow>
      map reconnectCounter
        [run [RpcPingSuccess d1] s,
         run [RpcPingSuccess d1, RpcPingSuccess d2] s,
         run [RpcPingSuccess d1, RpcPingSuccess d2, RpcPingSuccess d3] s,
         run [RpcPingSuccess d1, RpcPingSuccess d2, RpcPingSuccess d3, RpcPingSuccess d4] s,
         run [RpcPingSuccess d1, RpcPingSuccess d2, RpcPingSuccess d3, RpcPingSuccess d4,
              RpcPingSuccess d5] s,
         run [RpcPingSuccess d1, RpcPingSuccess d2, RpcPingSuccess d3, RpcPingSuccess d4,
              RpcPingSuccess d5, RpcPingSuccess d6] s] =
        [4, 3, 2, 1, 0, 0])"
proof (intro conjI impI)
  assume h: "constructor opts = Inr s0 \<and> 0 \<le> opt_reconnectCounterMax opts \<and>
    (\<forall>i\<in>set inputs. keeps_counter_max i)"
  then have "counter_inv (opt_reconnectCounterMax opts) (run inputs s0)"
    by (intro counter_inv_run) auto
  then show "0 \<le> reconnectCounter (run inputs s0)"
    and "reconnectCounter (run inputs s0) \<le> reconnectCounterMax (run inputs s0)"
    and "reconnectCounterMax (run inputs s0) = opt_reconnectCounterMax opts"
    by (simp_all add: counter_inv_def)
next
  assume "reconnectCounter s = 5"
  then show "map reconnectCounter
        [run [RpcPingSuccess d1] s,
         run [RpcPingSuccess d1, RpcPingSuccess d2] s,
         run [RpcPingSuccess d1, RpcPingSuccess d2, RpcPingSuccess d3] s,
         run [RpcPingSuccess d1, RpcPingSuccess d2, RpcPingSuccess d3, RpcPingSuccess d4] s,
         run [RpcPingSuccess d1, RpcPingSuccess d2, RpcPingSuccess d3, RpcPingSuccess d4,
              RpcPingSuccess d5] s,
         run [RpcPingSuccess d1, RpcPingSuccess d2, RpcPingSuccess d3, RpcPingSuccess d4,
              RpcPingSuccess d5, RpcPingSuccess d6] s] =
        [4, 3, 2, 1, 0, 0]"
    by (simp add: reconnectCounter_pingSuccess del: step.simps)
qed

theorem reconnectCounter_bounds_witness:
  "reconnectCounter (run [Start, TransportClose 0 1006 (Text []), TimerFires 1, RpcPingSuccess 7,
                          RpcPingSuccess 7, CloseConnection 3000 (Text ''bye'')] example_client) = 1 \<and>
   reconnectCounterMax (run [Start, TransportClose 0 1006 (Text []), TimerFires 1, RpcPingSuccess 7,
                          RpcPingSuccess 7, CloseConnection 3000 (Text ''bye'')] example_client) = 8 \<and>
   map reconnectCounter
     [run [RpcPingSuccess 7] (example_client\<lparr>reconnectCounter := 5\<rparr>),
      run [RpcPingSuccess 7, RpcPingSuccess 7] (example_client\<lparr>reconnectCounter := 5\<rparr>),
      run [RpcPingSuccess 7, RpcPingSuccess 7, RpcPingSuccess 7]
        (example_client\<lparr>reconnectCounter := 5\<rparr>),
      run [RpcPingSuccess 7, RpcPingSuccess 7, RpcPingSuccess 7, RpcPingSuccess 7]
        (example_client\<lparr>reconnectCounter := 5\<rparr>),
      run [RpcPingSuccess 7, RpcPingSuccess 7, RpcPingSuccess 7, RpcPingSuccess 7, RpcPingSuccess 7]
        (example_client\<lparr>reconnectCounter := 5\<rparr>),
      run [RpcPingSuccess 7, RpcPingSuccess 7, RpcPingSuccess 7, RpcPingSuccess 7, RpcPingSuccess 7,
           RpcPingSuccess 7] (example_client\<lparr>reconnectCounter := 5\<rparr>)] =
     [4, 3, 2, 1, 0, 0]"
proof -
  have m: "0 \<le> opt_reconnectCounterMax example_options" "opt_reconnectCounterMax example_options = 8"
    by (simp_all add: example_options_def DEFAULT_OPTIONS_def)
  have k: "\<forall>i\<in>set [Start, TransportClose 0 1006 (Text []), TimerFires 1, RpcPingSuccess 7,
                     RpcPingSuccess 7, CloseConnection 3000 (Text ''bye'')]. keeps_counter_max i"
    by simp
  have c: "reconnectCounter (run [Start, TransportClose 0 1006 (Text []), TimerFires 1, RpcPingSuccess 7,
                          RpcPingSuccess 7, CloseConnection 3000 (Text ''bye'')] example_client) = 1"
    by (simp add: example_client_eq eval_defs assertValid_cases)
  have f: "reconnectCounter (example_client\<lparr>reconnectCounter := 5\<rparr>) = 5"
    by simp
  show ?thesis
    using reconnectCounter_bounds [where opts = example_options and ?s0.0 = example_client and
        inputs = "[Start, TransportClose 0 1006 (Text []), TimerFires 1, RpcPingSuccess 7,
                   RpcPingSuccess 7, CloseConnection 3000 (Text ''bye'')]" and
        s = "example_client\<lparr>reconnectCounter := 5\<rparr>" and
        ?d1.0 = 7 and ?d2.0 = 7 and ?d3.0 = 7 and ?d4.0 = 7 and ?d5.0 = 7 and ?d6.0 = 7]
      constructor_example m k c f
    by (simp del: run.simps step.simps)
qed

text \<open>
  C3. For every integer \<open>c\<close>, assigning \<open>c\<close> to \<^verbatim>\<open>timeoutCloseCode\<close> or to
  \<^verbatim>\<open>internalErrorCloseCode\<close> succeeds (and stores \<open>c\<close>) if and only if \<open>c = 1000\<close> or
  \<open>3000 \<le> c \<le> 4999\<close>; for every other integer the assignment throws and the state,
  with the stored close code, is unchanged.
\<close>

theorem close_code_setters:
  fixes c :: int
  shows "(if c = 1000 \<or> (3000 \<le> c \<and> c \<le> 4999)
          then set_timeoutCloseCode (of_int c) s = (Inr (), s\<lparr>timeoutCloseCode := of_int c\<rparr>) \<and>
               set_internalErrorCloseCode (of_int c) s =
                 (Inr (), s\<lparr>internalErrorCloseCode := of_int c\<rparr>)
          else set_timeoutCloseCode (of_int c) s =
                 (Inl (InvalidCloseCode ''Invalid value for timeoutCloseCode:'' (of_int c)), s) \<and>
               set_internalErrorCloseCode (of_int c) s =
                 (Inl (InvalidCloseCode ''Invalid value for internalErrorCloseCode:'' (of_int c)), s))"
  by (simp add: set_timeoutCloseCode_def set_internalErrorCloseCode_def assertValid_cases)

theorem close_code_setters_witness:
  "set_timeoutCloseCode 3000 example_client = (Inr (), example_client\<lparr>timeoutCloseCode := 3000\<rparr>) \<and>
   set_internalErrorCloseCode 2999 example_client =
     (Inl (InvalidCloseCode ''Invalid value for internalErrorCloseCode:'' 2999), example_client)"
  using close_code_setters [of 3000 example_client] close_code_setters [of 2999 example_client]
  by simp
















text \<open>
  C10. \<^verbatim>\<open>stop(code, reason)\<close> with an invalid close code (not 1000 and not an integer in
  3000..4999) while a transport is active throws, and not atomically: in the state it
  leaves, \<^verbatim>\<open>started\<close> is false, the reconnect timer is cleared and no longer pending,
  pinging is stopped, and the transport is still the active one, with no call of its
  \<^verbatim>\<open>close\<close> and no event emitted.
\<close>

theorem stop_invalid_code_not_atomic:
  assumes "\<not> (code \<in> \<int> \<and> (code = 1000 \<or> (3000 \<le> code \<and> code \<le> 4999)))"
    and "activeWebSocket s = Some ws"
  shows "fst (stop code rsn s) = Inl (InvalidCloseCode ''closeConnection(): '' code) \<and>
         \<not> started (snd (stop code rsn s)) \<and>
         reconnectTimer (snd (stop code rsn s)) = None \<and>
         (\<forall>t. reconnectTimer s = Some t \<longrightarrow> t \<notin> fst ` set (timers (snd (stop code rsn s)))) \<and>
         \<not> rpc_pinging (snd (stop code rsn s)) \<and>
         activeWebSocket (snd (stop code rsn s)) = Some ws \<and>
         readyStates (snd (stop code rsn s)) = readyStates s \<and>
         closeCalls (snd (stop code rsn s)) = closeCalls s \<and>
         emitted (snd (stop code rsn s)) = emitted s"
proof -
  have "assertValidOutgoingCloseCode code ''closeConnection(): '' =
          Inl (InvalidCloseCode ''closeConnection(): '' code)"
    using assms(1) by (simp add: assertValid_cases)
  then have "stop code rsn s = (Inl (InvalidCloseCode ''closeConnection(): '' code), stopped s)"
    by (simp add: stop_eq closeConnection_invalid statement_def)
  with assms(2) show ?thesis
    by (auto simp: stopped_def rpc_stopPinging_def clearReconnectTimer_def rpc_clearTimeout_def
        split: option.splits)
qed

theorem stop_invalid_code_not_atomic_witness:
  "activeWebSocket (snd (start example_client)) = Some 0 \<and>
   fst (stop 5 (Text ''bye'') (snd (start example_client))) =
     Inl (InvalidCloseCode ''closeConnection(): '' 5) \<and>
   \<not> started (snd (stop 5 (Text ''bye'') (snd (start example_client)))) \<and>
   activeWebSocket (snd (stop 5 (Text ''bye'') (snd (start example_client)))) = Some 0 \<and>
   closeCalls (snd (stop 5 (Text ''bye'') (snd (start example_client)))) = []"
proof -
  have a: "activeWebSocket (snd (start example_client)) = Some 0"
    by (simp add: example_client_eq eval_defs)
  have c: "closeCalls (snd (start example_client)) = []"
    by (simp add: example_client_eq eval_defs)
  have i: "\<not> ((5::real) \<in> \<int> \<and> ((5::real) = 1000 \<or> (3000 \<le> (5::real) \<and> (5::real) \<le> 4999)))"
    by simp
  show ?thesis
    using stop_invalid_code_not_atomic [OF i a, of "Text ''bye''"] a c by simp
qed

end
